theory Spec2Isabelle
  imports Main "HOL-Library.Word" "HOL-Library.Stream"
begin

section \<open>Python values: errors, arrays, floats\<close>

text \<open>
  The exceptions the module can raise. \<open>AssertionError\<close> carries the message of the
  \<open>assert\<close>; \<open>AVError\<close> stands for any failure raised inside the PyAV encode/decode
  round trip, \<open>CvError\<close> for one raised inside OpenCV.
\<close>

datatype error =
    AssertionError string
  | IndexError
  | KeyError
  | ValueError
  | ZeroDivisionError
  | AVError
  | CvError

text \<open>
  A numpy array of shape \<open>(h, w, c)\<close> is a list of \<open>h\<close> rows, each a list of \<open>w\<close>
  pixels, each a list of \<open>c\<close> channel values. \<open>Image\<close> is the \<open>uint8\<close> array of
  \<open>lada.lib.Image\<close>.
\<close>

type_synonym 'a ndarray = "'a list list list"

type_synonym Image = "8 word ndarray"

text \<open>
  \<open>img.shape[:2]\<close>. A list of rows cannot hold the width of an array that has no rows
  (numpy keeps it: the shape \<open>(0, w, c)\<close>); \<open>shape_hw\<close> gives such an array width 0, and
  the statements below that read a frame's shape are about frames with at least one row.
\<close>

definition shape_hw :: "'a ndarray \<Rightarrow> nat \<times> nat" where
  "shape_hw img = (length img, (case img of [] \<Rightarrow> 0 | row # _ \<Rightarrow> length row))"

definition map3 :: "('a \<Rightarrow> 'b) \<Rightarrow> 'a ndarray \<Rightarrow> 'b ndarray" where
  "map3 f img = map (map (map f)) img"

text \<open>The lengths of all rows and pixels: what two arrays must share to be added.\<close>

definition dims :: "'a ndarray \<Rightarrow> nat list list" where
  "dims img = map (map length) img"

definition zip3 :: "('a \<Rightarrow> 'b \<Rightarrow> 'c) \<Rightarrow> 'a ndarray \<Rightarrow> 'b ndarray \<Rightarrow> 'c ndarray" where
  "zip3 f a b = map2 (map2 (map2 f)) a b"

subsection \<open>IEEE 754 binary floating point\<close>

text \<open>
  A finite float is a pair \<open>Float m e\<close> of value \<open>m * 2 ^ e\<close>. Two pairs of the same
  value are the same float; the model compares floats by value only (\<open>fl_less\<close>).
  Infinities and NaN are not modelled: every operation below is applied to finite values,
  and the pipeline's magnitudes are far from the overflow threshold.

  A format is its precision \<open>p\<close> (24 bits for \<open>float32\<close>, 53 for \<open>float64\<close>) and the
  exponent \<open>etiny\<close> of its smallest subnormal (\<open>-149\<close> and \<open>-1074\<close>).
\<close>

datatype float = Float (mant: int) (expo: int)

fun bitlen :: "nat \<Rightarrow> nat" where
  "bitlen n = (if n = 0 then 0 else Suc (bitlen (n div 2)))"

text \<open>\<open>\<lfloor>log\<^sub>2 (a / d)\<rfloor>\<close> for positive \<open>a\<close> and \<open>d\<close>.\<close>

definition floor_log2_frac :: "int \<Rightarrow> int \<Rightarrow> int" where
  "floor_log2_frac a d =
     (let c = int (bitlen (nat a)) - int (bitlen (nat d)) in
      if (if 0 \<le> c then d * 2 ^ nat c \<le> a else d \<le> a * 2 ^ nat (- c)) then c else c - 1)"

text \<open>The integer nearest to \<open>n / d\<close> (\<open>n \<ge> 0\<close>, \<open>d > 0\<close>), ties to the even one.\<close>

definition rne_frac :: "int \<Rightarrow> int \<Rightarrow> int" where
  "rne_frac n d =
     (let q = n div d; r = n mod d in
      if 2 * r < d then q else if d < 2 * r then q + 1 else if even q then q else q + 1)"

text \<open>
  \<open>fl_round p etiny n d e\<close> is the float of the format nearest to \<open>(n / d) * 2 ^ e\<close>
  (\<open>d > 0\<close>), ties to even: the unit in the last place is \<open>2 ^ t\<close>, where \<open>t\<close> leaves
  \<open>p\<close> significant bits, and is never below \<open>etiny\<close>.
\<close>

definition fl_round :: "nat \<Rightarrow> int \<Rightarrow> int \<Rightarrow> int \<Rightarrow> int \<Rightarrow> float" where
  "fl_round p etiny n d e =
     (if n = 0 then Float 0 0 else
      (let a = \<bar>n\<bar>;
           t = max (floor_log2_frac a d + e - int p + 1) etiny;
           k = e - t;
           m = (if 0 \<le> k then rne_frac (a * 2 ^ nat k) d else rne_frac a (d * 2 ^ nat (- k)))
       in Float (sgn n * m) t))"

definition fl_div :: "nat \<Rightarrow> int \<Rightarrow> float \<Rightarrow> float \<Rightarrow> float" where
  "fl_div p etiny x y = fl_round p etiny (mant x * sgn (mant y)) \<bar>mant y\<bar> (expo x - expo y)"

definition fl_mul :: "nat \<Rightarrow> int \<Rightarrow> float \<Rightarrow> float \<Rightarrow> float" where
  "fl_mul p etiny x y = fl_round p etiny (mant x * mant y) 1 (expo x + expo y)"

definition fl_add :: "nat \<Rightarrow> int \<Rightarrow> float \<Rightarrow> float \<Rightarrow> float" where
  "fl_add p etiny x y =
     (let e = min (expo x) (expo y) in
      fl_round p etiny (mant x * 2 ^ nat (expo x - e) + mant y * 2 ^ nat (expo y - e)) 1 e)"

definition fl_less :: "float \<Rightarrow> float \<Rightarrow> bool" where
  "fl_less x y =
     (let e = min (expo x) (expo y) in
      mant x * 2 ^ nat (expo x - e) < mant y * 2 ^ nat (expo y - e))"

text \<open>Rounding towards zero to an integer: C's conversion of a float to an integer.\<close>

definition fl_trunc :: "float \<Rightarrow> int" where
  "fl_trunc x =
     (if 0 \<le> expo x then mant x * 2 ^ nat (expo x)
      else sgn (mant x) * (\<bar>mant x\<bar> div 2 ^ nat (- expo x)))"

text \<open>\<open>\<lfloor>x\<rfloor>\<close>, as \<open>int(n // x)\<close> needs it.\<close>

definition fl_floor :: "float \<Rightarrow> int" where
  "fl_floor x =
     (if 0 \<le> expo x then mant x * 2 ^ nat (expo x) else mant x div 2 ^ nat (- expo x))"

definition f32_div :: "float \<Rightarrow> float \<Rightarrow> float" where
  "f32_div = fl_div 24 (- 149)"

definition f32_mul :: "float \<Rightarrow> float \<Rightarrow> float" where
  "f32_mul = fl_mul 24 (- 149)"

definition f32_add :: "float \<Rightarrow> float \<Rightarrow> float" where
  "f32_add = fl_add 24 (- 149)"

definition f64_div :: "float \<Rightarrow> float \<Rightarrow> float" where
  "f64_div = fl_div 53 (- 1074)"

definition f64_mul :: "float \<Rightarrow> float \<Rightarrow> float" where
  "f64_mul = fl_mul 53 (- 1074)"

definition f64_add :: "float \<Rightarrow> float \<Rightarrow> float" where
  "f64_add = fl_add 53 (- 1074)"

text \<open>\<open>np.clip(x, lo, hi)\<close> on one element: \<open>minimum(maximum(x, lo), hi)\<close>.\<close>

definition clip :: "float \<Rightarrow> float \<Rightarrow> float \<Rightarrow> float" where
  "clip x lo hi = (let y = (if fl_less x lo then lo else x) in if fl_less hi y then hi else y)"

text \<open>The value of a \<open>uint8\<close> as a float (\<open>astype(np.float32)\<close> is exact).\<close>

definition of_uint8 :: "8 word \<Rightarrow> float" where
  "of_uint8 x = Float (uint x) 0"

text \<open>
  \<open>astype(np.uint8)\<close> on a float: the fraction is dropped; a value outside \<open>[0, 256)\<close>
  wraps modulo 256, as numpy does on the common platforms (C leaves it undefined).
\<close>

definition astype_uint8 :: "float \<Rightarrow> 8 word" where
  "astype_uint8 x = word_of_int (fl_trunc x)"

section \<open>Random generators\<close>

text \<open>
  A generator (Python's \<open>random.Random\<close>, numpy's \<open>RandomState\<close>) is the sequence of raw
  outputs it is going to produce; each call below consumes one element and returns the
  rest as the generator's next state. Every value a call can return is the image of some
  raw output, so a statement about every generator covers every draw.
\<close>

type_synonym rng = "nat stream"

text \<open>\<open>random()\<close> and numpy's \<open>random_sample()\<close>: a 53-bit fraction in \<open>[0, 1)\<close>.\<close>

definition random_sample :: "rng \<Rightarrow> float \<times> rng" where
  "random_sample g = (Float (int (shd g mod 2 ^ 53)) (- 53), stl g)"

text \<open>\<open>random.Random.choice(seq)\<close>: \<open>seq[randbelow(len(seq))]\<close>.\<close>

definition py_choice :: "'a list \<Rightarrow> rng \<Rightarrow> error + ('a \<times> rng)" where
  "py_choice seq g =
     (if seq = [] then Inl IndexError else Inr (seq ! (shd g mod length seq), stl g))"

text \<open>\<open>RandomState.randint(low, high)\<close>: an integer of \<open>[low, high)\<close>.\<close>

definition np_randint :: "int \<Rightarrow> int \<Rightarrow> rng \<Rightarrow> error + (int \<times> rng)" where
  "np_randint low high g =
     (if high \<le> low then Inl ValueError
      else Inr (low + int (shd g) mod (high - low), stl g))"

text \<open>\<open>RandomState.uniform(low, high)\<close>: \<open>low + (high - low) * random_sample()\<close>.\<close>

definition np_uniform :: "float \<Rightarrow> float \<Rightarrow> rng \<Rightarrow> float \<times> rng" where
  "np_uniform low high g =
     (case random_sample g of (u, g') \<Rightarrow>
        (f64_add low (f64_mul (f64_add high (Float (- mant low) (expo low))) u), g'))"

text \<open>\<open>np.cumsum\<close> in \<open>float64\<close>, from a running total.\<close>

fun cumsum :: "float \<Rightarrow> float list \<Rightarrow> float list" where
  "cumsum acc [] = []"
| "cumsum acc (x # xs) = (let s = f64_add acc x in s # cumsum s xs)"

text \<open>\<open>cdf.searchsorted(u, side='right')\<close> on a sorted array: the first index whose entry exceeds \<open>u\<close>.\<close>

definition searchsorted_right :: "float list \<Rightarrow> float \<Rightarrow> nat" where
  "searchsorted_right cdf u = length (takeWhile (\<lambda>c. \<not> fl_less u c) cdf)"

text \<open>
  \<open>RandomState.choice(a, p=p)\<close>: the cumulative sums of \<open>p\<close>, divided by their last
  entry, are searched for one uniform sample.
\<close>

definition np_choice :: "'a list \<Rightarrow> float list \<Rightarrow> rng \<Rightarrow> error + ('a \<times> rng)" where
  "np_choice a p g =
     (if a = [] \<or> length p \<noteq> length a then Inl ValueError
      else
        (let c = cumsum (Float 0 0) p;
             cdf = map (\<lambda>x. f64_div x (last c)) c
         in case random_sample g of (u, g') \<Rightarrow>
              (let idx = searchsorted_right cdf u
               in if idx < length a then Inr (a ! idx, g') else Inl IndexError)))"

text \<open>
  Modelled from the spec: \<open>random_utils.get_rngs\<close> is not among the sources. The spec
  asks for two generators (one for booleans and discrete choices, one for numeric draws)
  and a repeatable mode "that seeds deterministically". \<open>seeded\<close> is the pair of
  generators the fixed seed gives, \<open>ambient\<close> the pair an unseeded call gets from the
  process at that moment.
\<close>

definition get_rngs :: "rng \<times> rng \<Rightarrow> rng \<times> rng \<Rightarrow> bool \<Rightarrow> rng \<times> rng" where
  "get_rngs seeded ambient repeatable_random = (if repeatable_random then seeded else ambient)"

section \<open>Sampled parameters\<close>

text \<open>
  The attributes both parameter classes carry and the pipelines read by name.
  \<open>video_bitrate\<close> is \<open>None\<close> or an integer.
\<close>

record DegradationParams =
  video_codec :: string
  video_bitrate :: "int option"
  should_add_video_compression :: bool
  should_add_blur :: bool
  should_add_noise :: bool

record MosaicRandomDegradationParamsV2 = DegradationParams +
  rng_numpy :: rng
  video_crf :: "int option"
  blur_sigma :: int
  should_run_video_compression_second_pass :: bool

record 'k MosaicRandomDegradationParams = DegradationParams +
  should_down_sample :: bool
  scale :: float
  sigma :: float
  repeatable_noise :: bool
  should_add_jpeg_compression :: bool
  jpeg_quality :: float
  blur_kernel :: 'k

text \<open>The float literals of the constructors, as the doubles Python reads them to.\<close>

definition d0_5 :: float where "d0_5 = Float 1 (- 1)"
definition d0_3 :: float where "d0_3 = Float 5404319552844595 (- 54)"
definition d0_1 :: float where "d0_1 = Float 3602879701896397 (- 55)"
definition d0_9 :: float where "d0_9 = Float 8106479329266893 (- 53)"
definition d0_2 :: float where "d0_2 = Float 3602879701896397 (- 54)"
definition d0_15 :: float where "d0_15 = Float 5404319552844595 (- 55)"

text \<open>The \<open>codecs\<close> dictionary of the v2 constructor, in insertion order.\<close>

definition codecs_v2 :: "(string \<times> int \<times> int) list" where
  "codecs_v2 =
     [(''libx264'', (16, 28)),
      (''libx265'', (20, 36)),
      (''libvpx-vp9'', (6000, 16000)),
      (''mpeg2video'', (18000, 40000))]"

definition available_codecs :: "string list" where
  "available_codecs = [''libx264'', ''libx265'', ''libvpx-vp9'', ''mpeg2video'']"

definition codec_probabilities :: "float list" where
  "codec_probabilities = [d0_3, d0_3, d0_3, d0_1]"

text \<open>\<open>d[k]\<close> on a dictionary.\<close>

definition dict_get :: "('k \<times> 'v) list \<Rightarrow> 'k \<Rightarrow> error + 'v" where
  "dict_get d k = (case map_of d k of None \<Rightarrow> Inl KeyError | Some v \<Rightarrow> Inr v)"

text \<open>\<open>rng_random.random() < p\<close>, with the generator's next state.\<close>

definition bernoulli :: "float \<Rightarrow> rng \<Rightarrow> bool \<times> rng" where
  "bernoulli p g = (case random_sample g of (u, g') \<Rightarrow> (fl_less u p, g'))"

text \<open>
  \<open>MosaicRandomDegradationParamsV2.__init__\<close>, from the two generators of \<open>get_rngs\<close>
  on. The statements run in the source's order; each generator is threaded through its
  own calls.
\<close>

definition init_v2 :: "rng \<times> rng \<Rightarrow> error + MosaicRandomDegradationParamsV2" where
  "init_v2 rngs =
     (case rngs of (rng_random, n0) \<Rightarrow>
      (case np_choice available_codecs codec_probabilities n0 of
         Inl e \<Rightarrow> Inl e
       | Inr (codec, n1) \<Rightarrow>
      (case dict_get codecs_v2 codec of
         Inl e \<Rightarrow> Inl e
       | Inr (lo, hi) \<Rightarrow>
      (case np_randint lo (hi + 1) n1 of
         Inl e \<Rightarrow> Inl e
       | Inr (v, n2) \<Rightarrow>
      (let (crf, bitrate) =
             (if codec \<in> set [''libvpx-vp9'', ''mpeg2video''] then (None, Some v)
              else (Some v, None));
           (compression, r1) = bernoulli d0_9 rng_random
       in
      (case np_randint 1 4 n2 of
         Inl e \<Rightarrow> Inl e
       | Inr (bs, n3) \<Rightarrow>
      (let (blur, r2) = bernoulli d0_3 r1;
           (noise_flag, r3) = bernoulli d0_2 r2;
           (second_pass, r4) = bernoulli d0_15 r3
       in Inr \<lparr>video_codec = codec,
                video_bitrate = bitrate,
                should_add_video_compression = compression,
                should_add_blur = blur,
                should_add_noise = noise_flag,
                rng_numpy = n3,
                video_crf = crf,
                blur_sigma = bs,
                should_run_video_compression_second_pass = second_pass\<rparr>)))))))"

definition MosaicRandomDegradationParamsV2_init ::
  "rng \<times> rng \<Rightarrow> rng \<times> rng \<Rightarrow> bool \<Rightarrow> error + MosaicRandomDegradationParamsV2" where
  "MosaicRandomDegradationParamsV2_init seeded ambient repeatable_random =
     init_v2 (get_rngs seeded ambient repeatable_random)"

text \<open>
  \<open>reinit_second_pass\<close> mutates the object; the model returns the updated object, or
  the error \<open>randint\<close> raised.
\<close>

definition reinit_second_pass ::
  "MosaicRandomDegradationParamsV2 \<Rightarrow> error + MosaicRandomDegradationParamsV2" where
  "reinit_second_pass self =
     (case np_randint 24 28 (rng_numpy self) of
        Inl e \<Rightarrow> Inl e
      | Inr (v, n') \<Rightarrow>
          Inr (self\<lparr>video_codec := ''libx264'',
                    rng_numpy := n',
                    video_crf := Some v,
                    video_bitrate := None,
                    should_add_blur := False,
                    should_add_noise := False,
                    should_run_video_compression_second_pass := False\<rparr>))"

text \<open>Any number of \<open>reinit_second_pass\<close> calls in a row.\<close>

fun reinit_times ::
  "nat \<Rightarrow> MosaicRandomDegradationParamsV2 \<Rightarrow> error + MosaicRandomDegradationParamsV2" where
  "reinit_times 0 self = Inr self"
| "reinit_times (Suc n) self =
     (case reinit_second_pass self of Inl e \<Rightarrow> Inl e | Inr self' \<Rightarrow> reinit_times n self')"

text \<open>
  Python's \<open>requested and rng_random.random() < p\<close>: the draw is made only when
  \<open>requested\<close> is true.
\<close>

definition and_bernoulli :: "bool \<Rightarrow> float \<Rightarrow> rng \<Rightarrow> bool \<times> rng" where
  "and_bernoulli requested p g = (if requested then bernoulli p g else (False, g))"

text \<open>The \<open>codecs\<close> dictionary of the v1 constructor, in insertion order.\<close>

definition codecs_v1 :: "(string \<times> int \<times> int) list" where
  "codecs_v1 =
     [(''libx264'', (15000, 100000)),
      (''libx265'', (10000, 60000)),
      (''libvpx-vp9'', (10000, 60000)),
      (''mpeg4'', (15000, 100000))]"

text \<open>The keyword arguments \<open>random_mixed_kernels\<close> is called with.\<close>

record kernel_args =
  kernel_list :: "string list"
  kernel_prob :: "float list"
  kernel_size :: nat
  sigma_x_range :: "float \<times> float"
  sigma_y_range :: "float \<times> float"
  noise_range :: "(float \<times> float) option"
  repeatable_random_arg :: bool

definition blur_kernel_args :: "bool \<Rightarrow> kernel_args" where
  "blur_kernel_args repeatable_random =
     \<lparr>kernel_list = [''iso'', ''aniso''],
      kernel_prob = [d0_5, d0_5],
      kernel_size = 41,
      sigma_x_range = (Float 0 0, Float 2 0),
      sigma_y_range = (Float 0 0, Float 2 0),
      noise_range = None,
      repeatable_random_arg = repeatable_random\<rparr>"

text \<open>
  \<open>MosaicRandomDegradationParams.__init__\<close>, from the two generators of \<open>get_rngs\<close> on.
  \<open>random_mixed_kernels\<close> (of \<open>lada.lib.degradations\<close>, not among the sources) is a
  parameter.
\<close>

definition init_v1 ::
  "(kernel_args \<Rightarrow> 'k) \<Rightarrow> rng \<times> rng \<Rightarrow> bool \<Rightarrow> bool \<Rightarrow> bool \<Rightarrow> bool \<Rightarrow> bool \<Rightarrow> bool
     \<Rightarrow> error + 'k MosaicRandomDegradationParams" where
  "init_v1 random_mixed_kernels rngs down_sample add_noise add_image_compression
       add_video_compression add_blur repeatable_random =
     (case rngs of (r0, n0) \<Rightarrow>
      (let (f_down, r1) = and_bernoulli down_sample d0_5 r0;
           (sc, n1) = np_uniform d0_5 (Float 2 0) n0;
           (f_noise, r2) = and_bernoulli add_noise d0_3 r1;
           (sg, n2) = np_uniform (Float 0 0) (Float 2 0) n1;
           (f_jpeg, r3) = and_bernoulli add_image_compression d0_5 r2;
           (jq, n3) = np_uniform (Float 70 0) (Float 90 0) n2
       in
      (case py_choice (map fst codecs_v1) r3 of
         Inl e \<Rightarrow> Inl e
       | Inr (codec, r4) \<Rightarrow>
      (case dict_get codecs_v1 codec of
         Inl e \<Rightarrow> Inl e
       | Inr (lo, hi) \<Rightarrow>
      (case np_randint lo (hi + 1) n3 of
         Inl e \<Rightarrow> Inl e
       | Inr (bitrate, n4) \<Rightarrow>
      (let (f_video, r5) = and_bernoulli add_video_compression d0_5 r4;
           (f_blur, r6) = and_bernoulli add_blur d0_5 r5
       in Inr \<lparr>video_codec = codec,
                video_bitrate = Some bitrate,
                should_add_video_compression = f_video,
                should_add_blur = f_blur,
                should_add_noise = f_noise,
                should_down_sample = f_down,
                scale = sc,
                sigma = sg,
                repeatable_noise = repeatable_random,
                should_add_jpeg_compression = f_jpeg,
                jpeg_quality = jq,
                blur_kernel = random_mixed_kernels (blur_kernel_args repeatable_random)\<rparr>))))))"

definition MosaicRandomDegradationParams_init ::
  "(kernel_args \<Rightarrow> 'k) \<Rightarrow> rng \<times> rng \<Rightarrow> rng \<times> rng \<Rightarrow> bool \<Rightarrow> bool \<Rightarrow> bool \<Rightarrow> bool \<Rightarrow> bool
     \<Rightarrow> bool \<Rightarrow> error + 'k MosaicRandomDegradationParams" where
  "MosaicRandomDegradationParams_init random_mixed_kernels seeded ambient down_sample add_noise
       add_image_compression add_video_compression add_blur repeatable_random =
     init_v1 random_mixed_kernels (get_rngs seeded ambient repeatable_random) down_sample
       add_noise add_image_compression add_video_compression add_blur repeatable_random"

section \<open>Video compression\<close>

text \<open>
  What \<open>_apply_video_compression\<close> hands to the encoder: the arguments of
  \<open>add_stream\<close> and the attributes it sets on the stream. \<open>bit_rate = None\<close> is a
  stream whose bit rate was never set.
\<close>

record encoder_settings =
  codec_name :: string
  rate :: nat
  options :: "string \<rightharpoonup> string"
  height :: nat
  width :: nat
  pix_fmt :: string
  bit_rate :: "int option"

text \<open>
  The collaborators outside the sources, as parameters:
  \<^item> \<open>pad_multiple\<close>: the block size \<open>pad_to_compatible_size_for_video_codecs\<close> pads to;
  \<^item> \<open>av_roundtrip\<close>: PyAV encoding the frames with the given settings into an in-memory
    mp4 and decoding it again (\<open>None\<close> when PyAV raises, \<open>add_stream\<close> included);
  \<^item> \<open>add_stream_ok\<close>: whether PyAV's \<open>add_stream\<close> accepts the codec with the options;
    it is consulted where the source reaches \<open>add_stream\<close> and has no frame to go on with;
  \<^item> \<open>filter2D\<close>, \<open>resize\<close> (\<open>None\<close> when OpenCV raises) and \<open>GaussianBlur\<close> of OpenCV;
  \<^item> \<open>generate_gaussian_noise\<close> and \<open>add_jpg_compression\<close> of \<open>lada.lib.degradations\<close>;
    the former draws from a random state \<open>'w\<close> of its own;
  \<^item> \<open>float_pow\<close>: Python's \<open>**\<close> on floats.
\<close>

record ('k, 'w) externals =
  pad_multiple :: nat
  av_roundtrip :: "encoder_settings \<Rightarrow> Image list \<Rightarrow> Image list option"
  add_stream_ok :: "string \<Rightarrow> (string \<rightharpoonup> string) \<Rightarrow> bool"
  filter2D :: "float ndarray \<Rightarrow> 'k \<Rightarrow> float ndarray"
  resize :: "float ndarray \<Rightarrow> int \<times> int \<Rightarrow> float ndarray option"
  GaussianBlur :: "Image \<Rightarrow> nat \<times> nat \<Rightarrow> int \<Rightarrow> Image"
  generate_gaussian_noise :: "'w \<Rightarrow> float ndarray \<Rightarrow> float \<Rightarrow> bool \<Rightarrow> bool \<Rightarrow> float ndarray \<times> 'w"
  add_jpg_compression :: "float ndarray \<Rightarrow> float \<Rightarrow> float ndarray"
  float_pow :: "float \<Rightarrow> float \<Rightarrow> float"

text \<open>\<open>str(n)\<close> for an integer.\<close>

fun str_nat :: "nat \<Rightarrow> string" where
  "str_nat n =
     (if n < 10 then [char_of (48 + n)] else str_nat (n div 10) @ [char_of (48 + n mod 10)])"

definition str_int :: "int \<Rightarrow> string" where
  "str_int i = (if i < 0 then CHR ''-'' # str_nat (nat (- i)) else str_nat (nat i))"

text \<open>The truth value of \<open>None\<close> or an integer in an \<open>if\<close>.\<close>

definition truthy :: "int option \<Rightarrow> bool" where
  "truthy x = (case x of None \<Rightarrow> False | Some v \<Rightarrow> v \<noteq> 0)"

text \<open>Lines 30 to 33 of \<open>_apply_video_compression\<close>: the \<open>options\<close> dictionary.\<close>

definition stream_options :: "string \<Rightarrow> int option \<Rightarrow> (string \<rightharpoonup> string)" where
  "stream_options codec crf =
     (let o0 = Map.empty;
          o1 = (case crf of
                  None \<Rightarrow> o0
                | Some v \<Rightarrow> if truthy crf then o0(''crf'' \<mapsto> str_int v) else o0);
          o2 = (if codec = ''libx265'' then o1(''x265-params'' \<mapsto> ''log_level=error'') else o1)
      in if codec = ''libx264'' \<or> codec = ''libx265''
         then o2(''preset'' \<mapsto> ''veryfast'') else o2)"

text \<open>
  Lines 30 to 38 of \<open>_apply_video_compression\<close>: the stream as it is set up for the
  frames, \<open>imgs[0]\<close> giving its size.
\<close>

definition stream_settings ::
  "Image list \<Rightarrow> string \<Rightarrow> int option \<Rightarrow> int option \<Rightarrow> error + encoder_settings" where
  "stream_settings imgs codec bitrate crf =
     (case imgs of
        [] \<Rightarrow> Inl IndexError
      | img0 # _ \<Rightarrow>
          Inr \<lparr>codec_name = codec,
               rate = 1,
               options = stream_options codec crf,
               height = fst (shape_hw img0),
               width = snd (shape_hw img0),
               pix_fmt = ''yuv420p'',
               bit_rate = (if truthy bitrate then bitrate else None)\<rparr>)"

text \<open>
  \<open>_apply_video_compression\<close>: the settings, then the encode/decode round trip. The
  source calls \<open>add_stream\<close> before it reads \<open>imgs[0]\<close>: with no frames, an encoder that
  refuses the codec raises first, and \<open>imgs[0]\<close> raises otherwise. With frames, a refusal
  of \<open>add_stream\<close> is one of the failures of \<open>av_roundtrip\<close>.
\<close>

definition u_apply_video_compression ::
  "('k, 'w) externals \<Rightarrow> Image list \<Rightarrow> string \<Rightarrow> int option \<Rightarrow> int option \<Rightarrow> error + Image list" where
  "u_apply_video_compression ext imgs codec bitrate crf =
     (case stream_settings imgs codec bitrate crf of
        Inl e \<Rightarrow>
          if add_stream_ok ext codec (stream_options codec crf) then Inl e else Inl AVError
      | Inr cfg \<Rightarrow>
          (case av_roundtrip ext cfg imgs of None \<Rightarrow> Inl AVError | Some outputs \<Rightarrow> Inr outputs))"

text \<open>The least multiple of \<open>a\<close> that is at least \<open>n\<close>.\<close>

definition round_up :: "nat \<Rightarrow> nat \<Rightarrow> nat" where
  "round_up a n = (if a = 0 then n else ((n + a - 1) div a) * a)"

text \<open>
  Modelled from the spec: \<open>video_utils.pad_to_compatible_size_for_video_codecs\<close> is not
  among the sources. The spec: "pad every frame's height and width up to the nearest size
  compatible with the chosen video codec's block/alignment constraints (typically
  multiples of a small power of two)", the crop afterwards keeping the top left corner.
  Rows are extended to the right and rows are added below, with zero pixels of the
  frame's channel count.
\<close>

definition pad_image :: "nat \<Rightarrow> Image \<Rightarrow> Image" where
  "pad_image a img =
     (let h = fst (shape_hw img);
          w = snd (shape_hw img);
          c = (case concat img of [] \<Rightarrow> 0 | px # _ \<Rightarrow> length px);
          black = replicate c 0
      in map (\<lambda>row. row @ replicate (round_up a w - w) black) img
         @ replicate (round_up a h - h) (replicate (round_up a w) black))"

definition pad_to_compatible_size_for_video_codecs ::
  "('k, 'w) externals \<Rightarrow> Image list \<Rightarrow> Image list" where
  "pad_to_compatible_size_for_video_codecs ext imgs = map (pad_image (pad_multiple ext)) imgs"

text \<open>\<open>img[0:h, 0:w, :]\<close>.\<close>

definition crop :: "nat \<Rightarrow> nat \<Rightarrow> 'a ndarray \<Rightarrow> 'a ndarray" where
  "crop h w img = map (take w) (take h img)"

text \<open>
  \<open>apply_video_compression\<close>. As in the source, \<open>imgs\<close> is rebound to the padded
  frames first, and \<open>h, w\<close> are read from \<open>imgs[0]\<close> after that.
\<close>

definition apply_video_compression ::
  "('k, 'w) externals \<Rightarrow> Image list \<Rightarrow> string \<Rightarrow> int option \<Rightarrow> int option \<Rightarrow> error + Image list" where
  "apply_video_compression ext imgs0 codec bitrate crf =
     (let imgs = pad_to_compatible_size_for_video_codecs ext imgs0 in
      case imgs of
        [] \<Rightarrow> Inl IndexError
      | img0 # _ \<Rightarrow>
          (let h = fst (shape_hw img0); w = snd (shape_hw img0) in
           case u_apply_video_compression ext imgs codec bitrate crf of
             Inl e \<Rightarrow> Inl e
           | Inr degraded_imgs \<Rightarrow> Inr (map (crop h w) degraded_imgs)))"

section \<open>The degradation pipelines\<close>

subsection \<open>v1\<close>

text \<open>
  \<open>int(n // scale)\<close> for an integer \<open>n\<close> and a Python float \<open>scale\<close> (what
  \<open>uniform\<close> returns): the floor of the quotient; a zero \<open>scale\<close> raises
  \<open>ZeroDivisionError\<close>.
\<close>

definition int_floordiv :: "nat \<Rightarrow> float \<Rightarrow> error + int" where
  "int_floordiv n x =
     (if mant x = 0 then Inl ZeroDivisionError
      else Inr (if 0 \<le> expo x then int n div (mant x * 2 ^ nat (expo x))
                else (int n * 2 ^ nat (- expo x)) div mant x))"

text \<open>
  \<open>apply_frame_degradation\<close>. \<open>world\<close> is the random state the noise generator draws
  from; it is returned as the call leaves it. The sum \<open>img_lq + noise\<close> needs arrays of
  one shape.
\<close>

definition apply_frame_degradation ::
  "('k, 'w) externals \<Rightarrow> 'w \<Rightarrow> Image \<Rightarrow> 'k MosaicRandomDegradationParams \<Rightarrow> error + (Image \<times> 'w)" where
  "apply_frame_degradation ext world img degradation_params =
     (let h = fst (shape_hw img);
          w = snd (shape_hw img);
          lq0 = map3 (\<lambda>x. f32_div (of_uint8 x) (Float 255 0)) img;
          lq1 = (if should_add_blur degradation_params
                 then filter2D ext lq0 (blur_kernel degradation_params) else lq0);
          down =
            (if should_down_sample degradation_params then
               (case int_floordiv w (scale degradation_params) of
                  Inl e \<Rightarrow> Inl e
                | Inr w' \<Rightarrow>
               (case int_floordiv h (scale degradation_params) of
                  Inl e \<Rightarrow> Inl e
                | Inr h' \<Rightarrow>
               (case resize ext lq1 (w', h') of None \<Rightarrow> Inl CvError | Some r \<Rightarrow> Inr r)))
             else Inr lq1)
      in
      case down of
        Inl e \<Rightarrow> Inl e
      | Inr lq2 \<Rightarrow>
      (case
         (if should_add_noise degradation_params then
            (case generate_gaussian_noise ext world lq2 (sigma degradation_params) False
                    (repeatable_noise degradation_params) of
               (nz, world') \<Rightarrow>
                 if dims nz = dims lq2
                 then Inr (zip3 (\<lambda>a b. clip (f32_add a b) (Float 0 0) (Float 1 0)) lq2 nz, world')
                 else Inl ValueError)
          else Inr (lq2, world))
       of
         Inl e \<Rightarrow> Inl e
       | Inr (lq3, world') \<Rightarrow>
      (let lq4 = (if should_add_jpeg_compression degradation_params
                  then add_jpg_compression ext lq3 (jpeg_quality degradation_params) else lq3)
       in
       case (if should_down_sample degradation_params
             then (case resize ext lq4 (int w, int h) of None \<Rightarrow> Inl CvError | Some r \<Rightarrow> Inr r)
             else Inr lq4)
       of
         Inl e \<Rightarrow> Inl e
       | Inr lq5 \<Rightarrow> Inr (map3 (\<lambda>v. astype_uint8 (f32_mul v (Float 255 0))) lq5, world'))))"

text \<open>The loop of \<open>apply_video_degradation\<close>: frame after frame, the first error ends it.\<close>

fun degrade_frames ::
  "('k, 'w) externals \<Rightarrow> 'w \<Rightarrow> Image list \<Rightarrow> 'k MosaicRandomDegradationParams
     \<Rightarrow> error + (Image list \<times> 'w)" where
  "degrade_frames ext world [] degradation_params = Inr ([], world)"
| "degrade_frames ext world (img # imgs) degradation_params =
     (case apply_frame_degradation ext world img degradation_params of
        Inl e \<Rightarrow> Inl e
      | Inr (lq, world') \<Rightarrow>
          (case degrade_frames ext world' imgs degradation_params of
             Inl e \<Rightarrow> Inl e
           | Inr (lqs, world'') \<Rightarrow> Inr (lq # lqs, world'')))"

definition apply_video_degradation ::
  "('k, 'w) externals \<Rightarrow> 'w \<Rightarrow> Image list \<Rightarrow> 'k MosaicRandomDegradationParams
     \<Rightarrow> error + (Image list \<times> 'w)" where
  "apply_video_degradation ext world imgs degradation_params =
     (case degrade_frames ext world imgs degradation_params of
        Inl e \<Rightarrow> Inl e
      | Inr (imgs_lq, world') \<Rightarrow>
          if should_add_video_compression degradation_params then
            (case apply_video_compression ext imgs_lq (video_codec degradation_params)
                    (video_bitrate degradation_params) None of
               Inl e \<Rightarrow> Inl e
             | Inr out \<Rightarrow> Inr (out, world'))
          else Inr (imgs_lq, world'))"

subsection \<open>v2\<close>

text \<open>
  The process-wide state behind \<open>np.random\<close>, seen through the standard normal
  variates it is going to yield.
\<close>

type_synonym np_global = "float stream"

text \<open>A state threaded through the elements of a list, left to right.\<close>

fun thread :: "('a \<Rightarrow> 's \<Rightarrow> 'b \<times> 's) \<Rightarrow> 'a list \<Rightarrow> 's \<Rightarrow> 'b list \<times> 's" where
  "thread f [] s = ([], s)"
| "thread f (x # xs) s =
     (case f x s of (y, s') \<Rightarrow> (case thread f xs s' of (ys, s'') \<Rightarrow> (y # ys, s'')))"

text \<open>
  \<open>np.random.normal(loc, scale, shape)\<close>: one variate per element of the shape (given by
  an array of that shape), in row-major order, each \<open>loc + scale * z\<close>.
\<close>

definition np_random_normal ::
  "float \<Rightarrow> float \<Rightarrow> 'a ndarray \<Rightarrow> np_global \<Rightarrow> float ndarray \<times> np_global" where
  "np_random_normal loc sc shaped g =
     thread (thread (thread (\<lambda>_ g. (f64_add loc (f64_mul sc (shd g)), stl g)))) shaped g"

text \<open>\<open>noise(img, snr)\<close>.\<close>

definition noise ::
  "('k, 'w) externals \<Rightarrow> np_global \<Rightarrow> Image \<Rightarrow> int \<Rightarrow> Image \<times> np_global" where
  "noise ext g img snr =
     (let mean = Float 0 0;
          img1 = map3 (\<lambda>x. f64_div (of_uint8 x) (Float 255 0)) img;
          sd = float_pow ext (Float 10 0) (f64_div (Float (- snr) 0) (Float 20 0))
      in case np_random_normal mean sd img1 g of
           (nz, g') \<Rightarrow>
             (let img2 = zip3 (\<lambda>a b. clip (f64_add a b) (Float 0 0) (Float 1 0)) img1 nz
              in (map3 (\<lambda>v. astype_uint8 (f64_mul v (Float 255 0))) img2, g')))"

definition apply_frame_degradation_v2 ::
  "('k, 'w) externals \<Rightarrow> np_global \<Rightarrow> Image \<Rightarrow> MosaicRandomDegradationParamsV2
     \<Rightarrow> Image \<times> np_global" where
  "apply_frame_degradation_v2 ext g img degradation_params =
     (let lq0 = img;
          lq1 = (if should_add_blur degradation_params
                 then GaussianBlur ext img (13, 13) (blur_sigma degradation_params) else lq0)
      in if should_add_noise degradation_params then noise ext g lq1 50 else (lq1, g))"

text \<open>
  \<open>apply_video_degradation_v2\<close>. The call of \<open>apply_video_compression\<close> passes the codec
  and the bit rate; its \<open>crf\<close> parameter keeps the default \<open>None\<close>.
\<close>

definition apply_video_degradation_v2 ::
  "('k, 'w) externals \<Rightarrow> np_global \<Rightarrow> Image list \<Rightarrow> MosaicRandomDegradationParamsV2
     \<Rightarrow> error + (Image list \<times> np_global)" where
  "apply_video_degradation_v2 ext g imgs degradation_params =
     (case imgs of
        [] \<Rightarrow> Inl IndexError
      | img0 # _ \<Rightarrow>
          if max (fst (shape_hw img0)) (snd (shape_hw img0)) \<noteq> 256
          then Inl (AssertionError ''video compression degradation expects width/height of 256px'')
          else
            (case apply_video_compression ext imgs (video_codec degradation_params)
                    (video_bitrate degradation_params) None of
               Inl e \<Rightarrow> Inl e
             | Inr imgs_lq \<Rightarrow>
                 Inr (thread (\<lambda>img g. apply_frame_degradation_v2 ext g img degradation_params)
                        imgs_lq g)))"

section \<open>Predicates of the claims\<close>

text \<open>
  Exactly one of \<open>video_crf\<close> and \<open>video_bitrate\<close> is set, and the codec decides which:
  the CRF for \<open>libx264\<close> and \<open>libx265\<close>, the bit rate for \<open>libvpx-vp9\<close> and
  \<open>mpeg2video\<close>.
\<close>

definition crf_xor_bitrate :: "MosaicRandomDegradationParamsV2 \<Rightarrow> bool" where
  "crf_xor_bitrate p =
     (if video_codec p \<in> set [''libx264'', ''libx265'']
      then video_crf p \<noteq> None \<and> video_bitrate p = None
      else if video_codec p \<in> set [''libvpx-vp9'', ''mpeg2video'']
      then video_crf p = None \<and> video_bitrate p \<noteq> None
      else False)"

text \<open>The sampled number lies in the range of the sampled codec, both ends included.\<close>

definition in_codec_range :: "MosaicRandomDegradationParamsV2 \<Rightarrow> bool" where
  "in_codec_range p =
     (video_codec p = ''libx264'' \<and> video_bitrate p = None \<and>
        (\<exists>v. video_crf p = Some v \<and> 16 \<le> v \<and> v \<le> 28)
      \<or> video_codec p = ''libx265'' \<and> video_bitrate p = None \<and>
        (\<exists>v. video_crf p = Some v \<and> 20 \<le> v \<and> v \<le> 36)
      \<or> video_codec p = ''libvpx-vp9'' \<and> video_crf p = None \<and>
        (\<exists>v. video_bitrate p = Some v \<and> 6000 \<le> v \<and> v \<le> 16000)
      \<or> video_codec p = ''mpeg2video'' \<and> video_crf p = None \<and>
        (\<exists>v. video_bitrate p = Some v \<and> 18000 \<le> v \<and> v \<le> 40000))"

text \<open>
  What the two conversions of \<open>apply_frame_degradation\<close> make of the pixel value \<open>i\<close>
  when nothing happens between them: \<open>i / 255\<close> and then \<open>* 255\<close> in \<open>float32\<close>, and
  the fraction dropped.
\<close>

definition roundtrip_value :: "int \<Rightarrow> int" where
  "roundtrip_value i = fl_trunc (f32_mul (f32_div (Float i 0) (Float 255 0)) (Float 255 0))"

section \<open>Inputs for the worked examples\<close>

text \<open>A black frame of \<open>h\<close> rows and \<open>w\<close> columns with three channels.\<close>

definition frame :: "nat \<Rightarrow> nat \<Rightarrow> Image" where
  "frame h w = replicate h (replicate w [0, 0, 0])"

text \<open>A v2 parameter object as the constructor can leave it: \<open>libx264\<close> with a CRF.\<close>

definition example_params_v2 :: MosaicRandomDegradationParamsV2 where
  "example_params_v2 =
     \<lparr>video_codec = ''libx264'',
      video_bitrate = None,
      should_add_video_compression = True,
      should_add_blur = False,
      should_add_noise = False,
      rng_numpy = sconst 0,
      video_crf = Some 20,
      blur_sigma = 2,
      should_run_video_compression_second_pass = False\<rparr>"

text \<open>A v1 parameter object with every flag false.\<close>

definition example_params_v1 :: "unit MosaicRandomDegradationParams" where
  "example_params_v1 =
     \<lparr>video_codec = ''libx264'',
      video_bitrate = Some 15000,
      should_add_video_compression = False,
      should_add_blur = False,
      should_add_noise = False,
      should_down_sample = False,
      scale = Float 3 (- 1),
      sigma = Float 1 0,
      repeatable_noise = False,
      should_add_jpeg_compression = False,
      jpeg_quality = Float 80 0,
      blur_kernel = ()\<rparr>"

text \<open>
  A pair of generators a fixed seed could give: the Python generator's second draw is
  the largest fraction, every other raw output is 0.
\<close>

definition seeded_example :: "rng \<times> rng" where
  "seeded_example = (0 ## (2 ^ 53 - 1) ## sconst 0, sconst 0)"

text \<open>
  Python's \<open>**\<close> where the pipeline uses it: \<open>10 ** (-50 / 20)\<close> is the double
  \<open>0.0031622776601683794\<close>.
\<close>

definition pow_example :: "float \<Rightarrow> float \<Rightarrow> float" where
  "pow_example b e = Float 7291715835891895 (- 61)"

text \<open>
  An encode/decode round trip that loses nothing: every frame comes back as it went in,
  at the size of the stream.
\<close>

definition lossless_roundtrip :: "encoder_settings \<Rightarrow> Image list \<Rightarrow> Image list option" where
  "lossless_roundtrip cfg imgs = Some imgs"

section \<open>Properties\<close>

lemma shape_hw_frame: "shape_hw (frame h w) = (h, if h = 0 then 0 else w)"
  by (cases h) (simp_all add: shape_hw_def frame_def)

subsection \<open>The v2 frame degrader without blur and noise\<close>

text \<open>
  C10. When a v2 parameter object has \<open>should_add_blur\<close> and \<open>should_add_noise\<close> both
  false, \<open>apply_frame_degradation_v2\<close> returns the input image itself, unmodified; the
  state of \<open>np.random\<close> is left as it was, and no conversion to floats takes place.
\<close>

theorem apply_frame_degradation_v2_identity:
  "\<not> should_add_blur p \<Longrightarrow> \<not> should_add_noise p \<Longrightarrow>
   apply_frame_degradation_v2 ext g img p = (img, g)"
  by (simp add: apply_frame_degradation_v2_def)

theorem apply_frame_degradation_v2_identity_witness:
  "\<forall>ext g. apply_frame_degradation_v2 ext g [[[1, 2, 3], [4, 5, 6]]] example_params_v2
      = ([[[1, 2, 3], [4, 5, 6]]], g)"
  by (simp add: apply_frame_degradation_v2_identity example_params_v2_def)

subsection \<open>The second pass\<close>

text \<open>
  C7. \<open>reinit_second_pass\<close> always succeeds and leaves the object with codec
  \<open>libx264\<close>, no bit rate, a CRF in \<open>[24, 28)\<close>, and \<open>should_add_blur\<close>,
  \<open>should_add_noise\<close> and \<open>should_run_video_compression_second_pass\<close> false;
  \<open>should_add_video_compression\<close> (and \<open>blur_sigma\<close>) are what they were. Only the CRF
  depends on the generator.
\<close>

theorem reinit_second_pass_result:
  "case reinit_second_pass self of
     Inl e \<Rightarrow> False
   | Inr s \<Rightarrow>
       video_codec s = ''libx264'' \<and> video_bitrate s = None \<and>
       (\<exists>v. video_crf s = Some v \<and> 24 \<le> v \<and> v < 28) \<and>
       \<not> should_add_blur s \<and> \<not> should_add_noise s \<and>
       \<not> should_run_video_compression_second_pass s \<and>
       should_add_video_compression s = should_add_video_compression self \<and>
       blur_sigma s = blur_sigma self"
  by (simp add: reinit_second_pass_def np_randint_def)

subsection \<open>What the v2 pipeline hands to the encoder\<close>

text \<open>
  C3. The claim is that the encoder of the v2 pipeline receives the sampled
  \<open>video_crf\<close> when the codec is \<open>libx264\<close> or \<open>libx265\<close>. The code does not do that:
  \<open>apply_video_degradation_v2\<close> never reads \<open>video_crf\<close>, so its result is the same
  whatever the CRF is, and the settings it builds (with \<open>crf = None\<close>) hold no
  \<open>crf\<close> option.
\<close>

theorem apply_video_degradation_v2_ignores_video_crf:
  "apply_video_degradation_v2 ext g imgs (p\<lparr>video_crf := c\<rparr>) = apply_video_degradation_v2 ext g imgs p
   \<and> (case stream_settings imgs (video_codec p) (video_bitrate p) None of
        Inl e \<Rightarrow> True
      | Inr cfg \<Rightarrow> options cfg ''crf'' = None)"
proof
  have "apply_frame_degradation_v2 ext g' img (p\<lparr>video_crf := c\<rparr>)
          = apply_frame_degradation_v2 ext g' img p" for g' img
    by (simp add: apply_frame_degradation_v2_def)
  then show "apply_video_degradation_v2 ext g imgs (p\<lparr>video_crf := c\<rparr>)
          = apply_video_degradation_v2 ext g imgs p"
    by (simp add: apply_video_degradation_v2_def split: list.splits sum.splits)
next
  show "case stream_settings imgs (video_codec p) (video_bitrate p) None of
          Inl e \<Rightarrow> True
        | Inr cfg \<Rightarrow> options cfg ''crf'' = None"
    by (cases imgs) (simp_all add: stream_settings_def stream_options_def Let_def)
qed

subsection \<open>The working-resolution assertion of v2\<close>

lemma apply_video_compression_no_assertion:
  "apply_video_compression ext imgs c b crf \<noteq> Inl (AssertionError m)"
  by (auto simp: apply_video_compression_def u_apply_video_compression_def
        stream_settings_def Let_def split: list.splits sum.splits option.splits)

lemma apply_video_degradation_v2_no_frames:
  "apply_video_degradation_v2 ext g [] p = Inl IndexError"
  by (simp add: apply_video_degradation_v2_def)

text \<open>
  C4. The claim is that \<open>apply_video_degradation_v2\<close> ends with an assertion failure
  whenever the input frames violate the working resolution. The assertion reads
  \<open>imgs[0]\<close> only, so the claim fails on a list whose first frame has the working
  resolution and whose second has not: for a 256 \<times> 256 frame followed by a
  100 \<times> 100 frame no assertion failure is raised, whatever the collaborators do.
\<close>

theorem apply_video_degradation_v2_later_frame_unchecked:
  "max (fst (shape_hw (frame 100 100))) (snd (shape_hw (frame 100 100))) \<noteq> 256
   \<and> (\<forall>ext g m. apply_video_degradation_v2 ext g [frame 256 256, frame 100 100] example_params_v2
         \<noteq> Inl (AssertionError m))"
proof (intro conjI allI)
  show "max (fst (shape_hw (frame 100 100))) (snd (shape_hw (frame 100 100))) \<noteq> 256"
    by (simp add: shape_hw_frame)
next
  fix ext :: "('k, 'w) externals" and g :: np_global and m :: string
  show "apply_video_degradation_v2 ext g [frame 256 256, frame 100 100] example_params_v2
          \<noteq> Inl (AssertionError m)"
    using apply_video_compression_no_assertion
            [of ext "[frame 256 256, frame 100 100]" _ _ None m]
    by (auto simp: apply_video_degradation_v2_def shape_hw_frame split: sum.splits)
qed

text \<open>
  C4, as amended. For a list with a first frame \<open>f\<close> (of at least one row) and any
  further frames: when the larger of \<open>f\<close>'s height and width is not 256,
  \<open>apply_video_degradation_v2\<close> ends with the assertion's error, whatever the encoder and
  the other collaborators would do (none is consulted); when it is 256, no assertion
  error is raised and the call is the video compression followed by the per-frame
  degradation. The frames after the first are not looked at; a list without frames
  raises \<open>IndexError\<close> (\<open>apply_video_degradation_v2_no_frames\<close>).
\<close>

theorem apply_video_degradation_v2_asserts_on_first_frame:
  assumes "f \<noteq> []"
  shows "if max (length f) (length (hd f)) = 256
         then (\<forall>m. apply_video_degradation_v2 ext g (f # fs) p \<noteq> Inl (AssertionError m)) \<and>
              apply_video_degradation_v2 ext g (f # fs) p =
                (case apply_video_compression ext (f # fs) (video_codec p) (video_bitrate p) None of
                   Inl e \<Rightarrow> Inl e
                 | Inr imgs_lq \<Rightarrow>
                     Inr (thread (\<lambda>img g. apply_frame_degradation_v2 ext g img p) imgs_lq g))
         else apply_video_degradation_v2 ext g (f # fs) p =
                Inl (AssertionError ''video compression degradation expects width/height of 256px'')"
proof -
  have sh: "shape_hw f = (length f, length (hd f))"
    using assms by (cases f) (simp_all add: shape_hw_def)
  show ?thesis
    using sh apply_video_compression_no_assertion [of ext "f # fs" _ _ None]
    by (auto simp: apply_video_degradation_v2_def split: sum.splits)
qed

theorem apply_video_degradation_v2_asserts_on_first_frame_witness:
  "(\<forall>ext g. apply_video_degradation_v2 ext g [[[[0, 0, 0]]], frame 256 256] example_params_v2 =
       Inl (AssertionError ''video compression degradation expects width/height of 256px''))
   \<and> (\<forall>ext g m. apply_video_degradation_v2 ext g [replicate 256 [[0, 0, 0]], [[[0, 0, 0]]]]
         example_params_v2 \<noteq> Inl (AssertionError m))"
proof (intro conjI allI)
  fix ext :: "('k, 'w) externals" and g :: np_global and m :: string
  show "apply_video_degradation_v2 ext g [[[[0, 0, 0]]], frame 256 256] example_params_v2 =
          Inl (AssertionError ''video compression degradation expects width/height of 256px'')"
    using apply_video_degradation_v2_asserts_on_first_frame
            [of "[[[0, 0, 0]]]" ext g "[frame 256 256]" example_params_v2]
    by simp
  show "apply_video_degradation_v2 ext g [replicate 256 [[0, 0, 0]], [[[0, 0, 0]]]]
          example_params_v2 \<noteq> Inl (AssertionError m)"
    using apply_video_degradation_v2_asserts_on_first_frame
            [of "replicate 256 [[0, 0, 0]]" ext g "[[[[0, 0, 0]]]]" example_params_v2]
    by auto
qed

subsection \<open>Evaluating the float operations\<close>

text \<open>
  \<open>bitlen\<close> is unfolded at numerals only, so that the simplifier evaluates a float
  operation on concrete operands and leaves one on variables alone.
\<close>

declare bitlen.simps [simp del]

lemma bitlen_numeral [simp]:
  "bitlen 0 = 0"
  "bitlen (Suc 0) = 1"
  "bitlen (numeral k) = Suc (bitlen (numeral k div 2))"
  by (simp_all add: bitlen.simps[of 0] bitlen.simps[of "Suc 0"] bitlen.simps[of "numeral k"])

lemmas fl_defs =
  f32_div_def f32_mul_def f32_add_def f64_div_def f64_mul_def f64_add_def
  fl_div_def fl_mul_def fl_add_def fl_round_def floor_log2_frac_def rne_frac_def Let_def

lemma cumsum_steps:
  "f64_add (Float 0 0) (Float 5404319552844595 (- 54)) = Float 5404319552844595 (- 54)"
  "f64_add (Float 5404319552844595 (- 54)) (Float 5404319552844595 (- 54)) = Float 5404319552844595 (- 53)"
  "f64_add (Float 5404319552844595 (- 53)) (Float 5404319552844595 (- 54)) = Float 8106479329266892 (- 53)"
  "f64_add (Float 8106479329266892 (- 53)) (Float 3602879701896397 (- 55)) = Float 9007199254740991 (- 53)"
  by (simp_all add: fl_defs)

lemma cdf_steps:
  "f64_div (Float 5404319552844595 (- 54)) (Float 9007199254740991 (- 53)) = Float 5404319552844596 (- 54)"
  "f64_div (Float 5404319552844595 (- 53)) (Float 9007199254740991 (- 53)) = Float 5404319552844596 (- 53)"
  "f64_div (Float 8106479329266892 (- 53)) (Float 9007199254740991 (- 53)) = Float 8106479329266893 (- 53)"
  "f64_div (Float 9007199254740991 (- 53)) (Float 9007199254740991 (- 53)) = Float 4503599627370496 (- 52)"
  by (simp_all add: fl_defs)

lemma codec_cumsum:
  "cumsum (Float 0 0) codec_probabilities =
     [Float 5404319552844595 (- 54), Float 5404319552844595 (- 53),
      Float 8106479329266892 (- 53), Float 9007199254740991 (- 53)]"
  by (simp add: codec_probabilities_def d0_3_def d0_1_def cumsum_steps)

lemma random_sample_below_one:
  "fl_less (fst (random_sample g)) (Float 4503599627370496 (- 52))"
proof -
  have "shd g mod 2 ^ 53 < 2 ^ 53" by simp
  then have "int (shd g mod 2 ^ 53) < int (2 ^ 53)" by (simp only: of_nat_less_iff)
  then show ?thesis
    by (simp add: fl_less_def random_sample_def)
qed

lemma np_choice_codec:
  "\<exists>c. np_choice available_codecs codec_probabilities g = Inr (c, stl g) \<and> c \<in> set available_codecs"
proof -
  obtain u g' where rs: "random_sample g = (u, g')" by fastforce
  have g': "g' = stl g" using rs by (simp add: random_sample_def)
  have ult: "fl_less u (Float 4503599627370496 (- 52))"
    using random_sample_below_one[of g] rs by simp
  let ?cdf = "[Float 5404319552844596 (- 54), Float 5404319552844596 (- 53),
      Float 8106479329266893 (- 53), Float 4503599627370496 (- 52)]"
  have idx: "searchsorted_right ?cdf u < 4"
    using ult by (simp add: searchsorted_right_def)
  have len: "length codec_probabilities = 4" "length available_codecs = 4" "available_codecs \<noteq> []"
    by (simp_all add: codec_probabilities_def available_codecs_def)
  have eq: "np_choice available_codecs codec_probabilities g =
         Inr (available_codecs ! searchsorted_right ?cdf u, stl g)"
    using idx by (simp add: np_choice_def codec_cumsum cdf_steps rs len g')
  have "available_codecs ! searchsorted_right ?cdf u \<in> set available_codecs"
    using idx len(2) by (metis nth_mem)
  then show ?thesis using eq by blast
qed

subsection \<open>The v2 sampler\<close>

lemma np_randint_range:
  "lo < hi \<Longrightarrow> \<exists>v. np_randint lo hi g = Inr (v, stl g) \<and> lo \<le> v \<and> v < hi"
proof -
  assume lt: "lo < hi"
  define m where "m = int (shd g) mod (hi - lo)"
  have "0 \<le> m" "m < hi - lo"
    using lt by (simp_all add: m_def)
  then have "lo \<le> lo + m" "lo + m < hi" by linarith+
  moreover have "np_randint lo hi g = Inr (lo + m, stl g)"
    using lt by (simp add: np_randint_def m_def)
  ultimately show ?thesis by blast
qed

lemma init_v2_sampled:
  "\<exists>p. init_v2 (r, n) = Inr p \<and> in_codec_range p \<and> 1 \<le> blur_sigma p \<and> blur_sigma p < 4"
proof -
  obtain c where c: "np_choice available_codecs codec_probabilities n = Inr (c, stl n)"
    and cin: "c \<in> set available_codecs"
    using np_choice_codec by blast
  obtain bs where bs: "np_randint 1 4 (stl (stl n)) = Inr (bs, stl (stl (stl n)))"
    and bsr: "1 \<le> bs" "bs < 4"
    using np_randint_range[of 1 4 "stl (stl n)"] by auto
  from cin consider "c = ''libx264''" | "c = ''libx265''" | "c = ''libvpx-vp9''" | "c = ''mpeg2video''"
    by (auto simp: available_codecs_def)
  then show ?thesis
  proof cases
    case 1
    obtain v where v: "np_randint 16 (28 + 1) (stl n) = Inr (v, stl (stl n))" and vr: "16 \<le> v" "v < 29"
      using np_randint_range[of 16 29 "stl n"] by auto
    show ?thesis
      using c 1 v vr bs bsr
      by (simp add: init_v2_def dict_get_def codecs_v2_def in_codec_range_def split: prod.splits)
  next
    case 2
    obtain v where v: "np_randint 20 (36 + 1) (stl n) = Inr (v, stl (stl n))" and vr: "20 \<le> v" "v < 37"
      using np_randint_range[of 20 37 "stl n"] by auto
    show ?thesis
      using c 2 v vr bs bsr
      by (simp add: init_v2_def dict_get_def codecs_v2_def in_codec_range_def split: prod.splits)
  next
    case 3
    obtain v where v: "np_randint 6000 (16000 + 1) (stl n) = Inr (v, stl (stl n))"
      and vr: "6000 \<le> v" "v < 16001"
      using np_randint_range[of 6000 16001 "stl n"] by auto
    show ?thesis
      using c 3 v vr bs bsr
      by (simp add: init_v2_def dict_get_def codecs_v2_def in_codec_range_def split: prod.splits)
  next
    case 4
    obtain v where v: "np_randint 18000 (40000 + 1) (stl n) = Inr (v, stl (stl n))"
      and vr: "18000 \<le> v" "v < 40001"
      using np_randint_range[of 18000 40001 "stl n"] by auto
    show ?thesis
      using c 4 v vr bs bsr
      by (simp add: init_v2_def dict_get_def codecs_v2_def in_codec_range_def split: prod.splits)
  qed
qed

lemma in_codec_range_xor: "in_codec_range p \<Longrightarrow> crf_xor_bitrate p"
  by (auto simp: in_codec_range_def crf_xor_bitrate_def)

lemma reinit_second_pass_xor:
  "\<exists>s. reinit_second_pass p = Inr s \<and> crf_xor_bitrate s"
  by (simp add: reinit_second_pass_def np_randint_def crf_xor_bitrate_def)

lemma reinit_times_xor:
  "crf_xor_bitrate p \<Longrightarrow> \<exists>s. reinit_times k p = Inr s \<and> crf_xor_bitrate s"
proof (induction k arbitrary: p)
  case 0
  then show ?case by simp
next
  case (Suc k)
  obtain s where s: "reinit_second_pass p = Inr s" "crf_xor_bitrate s"
    using reinit_second_pass_xor by blast
  then show ?case using Suc.IH[of s] by simp
qed

text \<open>
  C6. A v2 parameter object, right after construction (in either mode, from any pair of
  generators) and after any number \<open>k\<close> of \<open>reinit_second_pass\<close> calls, has exactly one
  of \<open>video_crf\<close> and \<open>video_bitrate\<close> set: the CRF when the codec is \<open>libx264\<close> or
  \<open>libx265\<close>, the bit rate when it is \<open>libvpx-vp9\<close> or \<open>mpeg2video\<close>. Neither the
  constructor nor \<open>reinit_second_pass\<close> raises.
\<close>

theorem v2_crf_xor_bitrate_invariant:
  "case MosaicRandomDegradationParamsV2_init seeded ambient repeatable_random of
     Inl e \<Rightarrow> False
   | Inr p \<Rightarrow>
       crf_xor_bitrate p \<and>
       (case reinit_times k p of Inl e \<Rightarrow> False | Inr s \<Rightarrow> crf_xor_bitrate s)"
proof -
  obtain r n where rn: "get_rngs seeded ambient repeatable_random = (r, n)" by fastforce
  obtain p where p: "init_v2 (r, n) = Inr p" "in_codec_range p"
    using init_v2_sampled by blast
  then have x: "crf_xor_bitrate p" by (simp add: in_codec_range_xor)
  obtain s where "reinit_times k p = Inr s" "crf_xor_bitrate s"
    using reinit_times_xor[OF x] by blast
  then show ?thesis
    using p x by (simp add: MosaicRandomDegradationParamsV2_init_def rn)
qed

text \<open>
  C8. For every pair of generators the v2 constructor returns an object whose sampled
  number is in the range of its codec, both ends included (CRF in \<open>[16, 28]\<close> for
  \<open>libx264\<close> and in \<open>[20, 36]\<close> for \<open>libx265\<close>, bit rate in \<open>[6000, 16000]\<close> for
  \<open>libvpx-vp9\<close> and in \<open>[18000, 40000]\<close> for \<open>mpeg2video\<close>), and whose
  \<open>blur_sigma\<close> is in \<open>[1, 4)\<close>.
\<close>

theorem v2_sampled_ranges:
  "case MosaicRandomDegradationParamsV2_init seeded ambient repeatable_random of
     Inl e \<Rightarrow> False
   | Inr p \<Rightarrow> in_codec_range p \<and> 1 \<le> blur_sigma p \<and> blur_sigma p < 4"
proof -
  obtain r n where rn: "get_rngs seeded ambient repeatable_random = (r, n)" by fastforce
  obtain p where "init_v2 (r, n) = Inr p" "in_codec_range p" "1 \<le> blur_sigma p" "blur_sigma p < 4"
    using init_v2_sampled by blast
  then show ?thesis
    by (simp add: MosaicRandomDegradationParamsV2_init_def rn)
qed

subsection \<open>The v1 sampler\<close>

lemma snd_np_uniform: "snd (np_uniform lo hi g) = stl g"
  by (simp add: np_uniform_def random_sample_def)

lemma fst_and_bernoulli: "fst (and_bernoulli requested q g) = (requested \<and> fst (bernoulli q g))"
  by (simp add: and_bernoulli_def)

lemma py_choice_codecs_v1:
  "\<exists>c. py_choice (map fst codecs_v1) g = Inr (c, stl g) \<and> c \<in> set (map fst codecs_v1)"
proof -
  have "shd g mod 4 < length (map fst codecs_v1)" by (simp add: codecs_v1_def)
  then have "map fst codecs_v1 ! (shd g mod 4) \<in> set (map fst codecs_v1)"
    by (rule nth_mem)
  moreover have "py_choice (map fst codecs_v1) g = Inr (map fst codecs_v1 ! (shd g mod 4), stl g)"
    by (simp add: py_choice_def codecs_v1_def)
  ultimately show ?thesis by blast
qed

lemma dict_get_codecs_v1:
  "c \<in> set (map fst codecs_v1) \<Longrightarrow> \<exists>lo hi. dict_get codecs_v1 c = Inr (lo, hi) \<and> lo < hi + 1"
  by (auto simp: codecs_v1_def dict_get_def)

text \<open>
  C5. For every combination of the constructor's toggles and every pair of generators,
  the v1 constructor returns an object in which each \<open>should_...\<close> flag is the
  requested toggle AND a Bernoulli draw (so it is true only if the toggle was), and in
  which \<open>scale\<close>, \<open>sigma\<close>, \<open>jpeg_quality\<close>, \<open>video_codec\<close>, \<open>video_bitrate\<close> and
  \<open>blur_kernel\<close> are drawn whatever the toggles and flags are: the three uniform draws
  and the bit rate are the first four draws of the numpy generator, the codec is a
  \<open>choice\<close> of the Python generator, the kernel is \<open>random_mixed_kernels\<close>' result.
  (A flag's Bernoulli draw is consumed only when its toggle is true, so the position
  \<open>r3\<close> the codec is drawn at depends on the toggles.)
\<close>

theorem v1_flags_and_values:
  "case MosaicRandomDegradationParams_init random_mixed_kernels seeded ambient
          down_sample add_noise add_image_compression add_video_compression add_blur
          repeatable_random of
     Inl e \<Rightarrow> False
   | Inr p \<Rightarrow>
       (let r0 = fst (get_rngs seeded ambient repeatable_random);
            n0 = snd (get_rngs seeded ambient repeatable_random);
            r1 = snd (and_bernoulli down_sample d0_5 r0);
            r2 = snd (and_bernoulli add_noise d0_3 r1);
            r3 = snd (and_bernoulli add_image_compression d0_5 r2);
            r4 = stl r3;
            r5 = snd (and_bernoulli add_video_compression d0_5 r4);
            n3 = stl (stl (stl n0))
        in should_down_sample p = (down_sample \<and> fst (bernoulli d0_5 r0)) \<and>
           should_add_noise p = (add_noise \<and> fst (bernoulli d0_3 r1)) \<and>
           should_add_jpeg_compression p = (add_image_compression \<and> fst (bernoulli d0_5 r2)) \<and>
           should_add_video_compression p = (add_video_compression \<and> fst (bernoulli d0_5 r4)) \<and>
           should_add_blur p = (add_blur \<and> fst (bernoulli d0_5 r5)) \<and>
           scale p = fst (np_uniform d0_5 (Float 2 0) n0) \<and>
           sigma p = fst (np_uniform (Float 0 0) (Float 2 0) (stl n0)) \<and>
           jpeg_quality p = fst (np_uniform (Float 70 0) (Float 90 0) (stl (stl n0))) \<and>
           py_choice (map fst codecs_v1) r3 = Inr (video_codec p, r4) \<and>
           (\<exists>lo hi v. dict_get codecs_v1 (video_codec p) = Inr (lo, hi) \<and>
              np_randint lo (hi + 1) n3 = Inr (v, stl n3) \<and> video_bitrate p = Some v) \<and>
           blur_kernel p = random_mixed_kernels (blur_kernel_args repeatable_random))"
proof -
  define r0 where "r0 = fst (get_rngs seeded ambient repeatable_random)"
  define n0 where "n0 = snd (get_rngs seeded ambient repeatable_random)"
  define r3 where "r3 = snd (and_bernoulli add_image_compression d0_5
     (snd (and_bernoulli add_noise d0_3 (snd (and_bernoulli down_sample d0_5 r0)))))"
  have rn: "get_rngs seeded ambient repeatable_random = (r0, n0)"
    by (simp add: r0_def n0_def)
  obtain c where c: "py_choice (map fst codecs_v1) r3 = Inr (c, stl r3)"
    and cin: "c \<in> set (map fst codecs_v1)"
    using py_choice_codecs_v1 by blast
  obtain lo hi where d: "dict_get codecs_v1 c = Inr (lo, hi)" and lh: "lo < hi + 1"
    using dict_get_codecs_v1[OF cin] by blast
  obtain v where v: "np_randint lo (hi + 1) (stl (stl (stl n0))) = Inr (v, stl (stl (stl (stl n0))))"
    using lh by (auto simp: np_randint_def)
  show ?thesis
    using c d v
    by (simp add: MosaicRandomDegradationParams_init_def init_v1_def rn Let_def case_prod_beta
        snd_np_uniform fst_and_bernoulli r3_def)
qed

subsection \<open>The v1 frame degrader with every flag false\<close>

text \<open>
  The round trip of one pixel value is evaluated for each of the 256 values, in runs of
  32.
\<close>

lemma roundtrip_value_num:
  "roundtrip_value 0 = fl_trunc (f32_mul (f32_div (Float 0 0) (Float 255 0)) (Float 255 0))"
  "roundtrip_value 1 = fl_trunc (f32_mul (f32_div (Float 1 0) (Float 255 0)) (Float 255 0))"
  "roundtrip_value (numeral k) =
     fl_trunc (f32_mul (f32_div (Float (numeral k) 0) (Float 255 0)) (Float 255 0))"
  by (simp_all only: roundtrip_value_def)

lemma roundtrip_small: "roundtrip_value 0 = 0" "roundtrip_value 1 = 1"
  by (simp_all add: roundtrip_value_num fl_trunc_def fl_defs)

lemma roundtrip_chunk0: "list_all (\<lambda>i. roundtrip_value i = i) [2..31]"
  by (simp add: roundtrip_value_num fl_trunc_def fl_defs)

lemma roundtrip_chunk1: "list_all (\<lambda>i. roundtrip_value i = i) [32..63]"
  by (simp add: roundtrip_value_num fl_trunc_def fl_defs)

lemma roundtrip_chunk2: "list_all (\<lambda>i. roundtrip_value i = i) [64..95]"
  by (simp add: roundtrip_value_num fl_trunc_def fl_defs)

lemma roundtrip_chunk3: "list_all (\<lambda>i. roundtrip_value i = i) [96..127]"
  by (simp add: roundtrip_value_num fl_trunc_def fl_defs)

lemma roundtrip_chunk4: "list_all (\<lambda>i. roundtrip_value i = i) [128..159]"
  by (simp add: roundtrip_value_num fl_trunc_def fl_defs)

lemma roundtrip_chunk5: "list_all (\<lambda>i. roundtrip_value i = i) [160..191]"
  by (simp add: roundtrip_value_num fl_trunc_def fl_defs)

lemma roundtrip_chunk6: "list_all (\<lambda>i. roundtrip_value i = i) [192..223]"
  by (simp add: roundtrip_value_num fl_trunc_def fl_defs)

lemma roundtrip_chunk7: "list_all (\<lambda>i. roundtrip_value i = i) [224..255]"
  by (simp add: roundtrip_value_num fl_trunc_def fl_defs)

lemma roundtrip_value_id: "0 \<le> i \<Longrightarrow> i \<le> 255 \<Longrightarrow> roundtrip_value i = i"
proof -
  assume a: "0 \<le> i" "i \<le> 255"
  then have "i = 0 \<or> i = 1 \<or> i \<in> {2..31} \<or> i \<in> {32..63} \<or> i \<in> {64..95} \<or> i \<in> {96..127} \<or> i \<in> {128..159} \<or> i \<in> {160..191} \<or> i \<in> {192..223} \<or> i \<in> {224..255}"
    unfolding atLeastAtMost_iff by linarith
  then show ?thesis
    using roundtrip_small roundtrip_chunk0 roundtrip_chunk1 roundtrip_chunk2 roundtrip_chunk3 roundtrip_chunk4 roundtrip_chunk5 roundtrip_chunk6 roundtrip_chunk7
    unfolding list_all_iff set_upto by blast
qed

lemma pixel_roundtrip:
  "astype_uint8 (f32_mul (f32_div (of_uint8 x) (Float 255 0)) (Float 255 0)) = x"
proof -
  have "uint x < 256" using uint_lt2p [of x] by simp
  then have "roundtrip_value (uint x) = uint x"
    by (intro roundtrip_value_id) simp_all
  then show ?thesis
    by (simp add: astype_uint8_def of_uint8_def roundtrip_value_def)
qed

lemma map3_roundtrip:
  "map3 (\<lambda>v. astype_uint8 (f32_mul v (Float 255 0)))
     (map3 (\<lambda>x. f32_div (of_uint8 x) (Float 255 0)) img) = img"
  by (simp add: map3_def comp_def pixel_roundtrip)

lemma apply_frame_degradation_no_flags:
  "\<not> should_add_blur p \<Longrightarrow> \<not> should_down_sample p \<Longrightarrow> \<not> should_add_noise p \<Longrightarrow>
   \<not> should_add_jpeg_compression p \<Longrightarrow> apply_frame_degradation ext world img p = Inr (img, world)"
  by (simp add: apply_frame_degradation_def map3_roundtrip)

text \<open>
  C2. For every 8-bit image, when a v1 parameter object has its five \<open>should_...\<close>
  flags false, \<open>apply_frame_degradation\<close> returns the input image, bit for bit (and
  leaves the noise generator's state alone): dividing a pixel value by 255 and
  multiplying by 255 in \<open>float32\<close> gives the value back exactly, so the truncating
  conversion to \<open>uint8\<close> loses nothing.
\<close>

theorem apply_frame_degradation_identity:
  assumes "\<not> should_down_sample p" and "\<not> should_add_noise p"
    and "\<not> should_add_jpeg_compression p" and "\<not> should_add_video_compression p"
    and "\<not> should_add_blur p"
  shows "apply_frame_degradation ext world img p = Inr (img, world)"
  using assms by (simp add: apply_frame_degradation_no_flags)

theorem apply_frame_degradation_identity_witness:
  "\<forall>ext world. apply_frame_degradation ext world [[[0, 127, 255], [1, 2, 254]]] example_params_v1
      = Inr ([[[0, 127, 255], [1, 2, 254]]], world)"
proof (intro allI)
  fix ext :: "(unit, 'w) externals" and world :: 'w
  show "apply_frame_degradation ext world [[[0, 127, 255], [1, 2, 254]]] example_params_v1
      = Inr ([[[0, 127, 255], [1, 2, 254]]], world)"
    by (rule apply_frame_degradation_identity) (simp_all add: example_params_v1_def)
qed

subsection \<open>Repeatable mode and the noise of v2\<close>

lemma length_codec_probabilities: "length codec_probabilities = 4"
  by (simp add: codec_probabilities_def)

lemma seeded_example_params:
  "MosaicRandomDegradationParamsV2_init seeded_example ambient True =
     Inr \<lparr>video_codec = ''libx264'',
          video_bitrate = None,
          should_add_video_compression = True,
          should_add_blur = False,
          should_add_noise = True,
          rng_numpy = sconst 0,
          video_crf = Some 16,
          blur_sigma = 1,
          should_run_video_compression_second_pass = True\<rparr>"
  by (simp add: MosaicRandomDegradationParamsV2_init_def get_rngs_def seeded_example_def
      init_v2_def np_choice_def codec_cumsum cdf_steps searchsorted_right_def random_sample_def
      fl_less_def dict_get_def codecs_v2_def np_randint_def bernoulli_def
      d0_9_def d0_3_def d0_2_def d0_15_def available_codecs_def Let_def
      length_codec_probabilities)

lemma noise_steps:
  "f64_div (Float 100 0) (Float 255 0) = Float 7064470003718425 (- 54)"
  "f64_mul (Float 7291715835891895 (- 61)) (Float 1 0) = Float 7291715835891895 (- 61)"
  "f64_mul (Float 7291715835891895 (- 61)) (Float (- 1) 0) = Float (- 7291715835891895) (- 61)"
  "f64_add (Float 0 0) (Float 7291715835891895 (- 61)) = Float 7291715835891895 (- 61)"
  "f64_add (Float 0 0) (Float (- 7291715835891895) (- 61)) = Float (- 7291715835891895) (- 61)"
  "f64_add (Float 7064470003718425 (- 54)) (Float 7291715835891895 (- 61)) = Float 7121436533686330 (- 54)"
  "f64_add (Float 7064470003718425 (- 54)) (Float (- 7291715835891895) (- 61)) = Float 7007503473750520 (- 54)"
  "f64_mul (Float 7121436533686330 (- 54)) (Float 255 0) = Float 7093618422226618 (- 46)"
  "f64_mul (Float 7007503473750520 (- 54)) (Float 255 0) = Float 6980130413306182 (- 46)"
  by (simp_all add: fl_defs)


text \<open>
  C9. The claim is that in repeatable mode two runs on the same input give the same
  parameters and the same frames, no randomness coming from global state. The sampled
  parameters are repeatable, but \<open>noise\<close> draws from the process-wide \<open>np.random\<close>:
  with the parameters the seeded constructor returns (they do not depend on the ambient
  generators), the same one-pixel image of value 100 comes back as 100 when the next
  normal variate of \<open>np.random\<close> is \<open>+1\<close> and as 99 when it is \<open>-1\<close>.
\<close>

theorem v2_noise_not_repeatable:
  "case MosaicRandomDegradationParamsV2_init seeded_example ambient True of
     Inl e \<Rightarrow> False
   | Inr p \<Rightarrow>
       should_add_noise p \<and>
       fst (apply_frame_degradation_v2 (ext\<lparr>float_pow := pow_example\<rparr>)
              (sconst (Float 1 0)) [[[100]]] p) = [[[100]]] \<and>
       fst (apply_frame_degradation_v2 (ext\<lparr>float_pow := pow_example\<rparr>)
              (sconst (Float (- 1) 0)) [[[100]]] p) = [[[99]]]"
  by (simp add: seeded_example_params apply_frame_degradation_v2_def noise_def
      np_random_normal_def map3_def zip3_def of_uint8_def pow_example_def noise_steps
      clip_def fl_less_def astype_uint8_def fl_trunc_def Let_def)

subsection \<open>The size of the frames video compression returns\<close>

lemma round_up_ge: "n \<le> round_up a n"
proof (cases "a = 0")
  case True
  then show ?thesis by (simp add: round_up_def)
next
  case False
  define q where "q = (n + a - 1) div a"
  define r where "r = (n + a - 1) mod a"
  have "q * a + r = n + a - 1" by (simp add: q_def r_def)
  moreover have "r < a" using False by (simp add: r_def)
  ultimately have "n \<le> q * a" by linarith
  then show ?thesis using False by (simp add: round_up_def q_def)
qed

lemma pad_image_frame:
  "0 < h \<Longrightarrow> 0 < w \<Longrightarrow> pad_image a (frame h w) = frame (round_up a h) (round_up a w)"
proof -
  assume h: "0 < h" and w: "0 < w"
  obtain h' w' where hw: "h = Suc h'" "w = Suc w'"
    using h w by (metis Suc_pred)
  have c: "(case concat (frame h w) of [] \<Rightarrow> 0 | px # _ \<Rightarrow> length px) = 3"
    by (simp add: frame_def hw)
  have black: "replicate 3 (0 :: 8 word) = [0, 0, 0]"
    by (simp add: numeral_3_eq_3)
  have row: "replicate w [0, 0, 0 :: 8 word] @ replicate (round_up a w - w) [0, 0, 0]
               = replicate (round_up a w) [0, 0, 0]"
    using round_up_ge[of w a] by (simp add: replicate_add [symmetric])
  have rows: "replicate h (replicate (round_up a w) [0, 0, 0 :: 8 word])
                @ replicate (round_up a h - h) (replicate (round_up a w) [0, 0, 0])
              = replicate (round_up a h) (replicate (round_up a w) [0, 0, 0])"
    using round_up_ge[of h a] by (simp add: replicate_add [symmetric])
  show ?thesis
    using h
    by (simp add: pad_image_def Let_def shape_hw_frame c black)
       (simp add: frame_def row rows)
qed

lemma crop_frame:
  "crop (fst (shape_hw (frame h w))) (snd (shape_hw (frame h w))) (frame h w) = frame h w"
proof -
  have "map (take (if h = 0 then 0 else w)) (take h (frame h w)) = frame h w"
    by (cases h) (simp_all add: frame_def)
  then show ?thesis by (simp add: crop_def shape_hw_frame)
qed

lemma apply_video_compression_lossless:
  "0 < h \<Longrightarrow> 0 < w \<Longrightarrow>
   apply_video_compression (ext\<lparr>pad_multiple := a, av_roundtrip := lossless_roundtrip\<rparr>)
     [frame h w] codec bitrate crf = Inr [frame (round_up a h) (round_up a w)]"
  by (simp add: apply_video_compression_def pad_to_compatible_size_for_video_codecs_def
      pad_image_frame u_apply_video_compression_def stream_settings_def lossless_roundtrip_def
      crop_frame Let_def split: option.splits)

lemma round_up_examples:
  "round_up 2 257 = 258" "round_up 2 255 = 256" "round_up 4 257 = 260" "round_up 4 255 = 256"
  "round_up 2 256 = 256" "round_up 4 256 = 256"
  by (simp_all add: round_up_def)

text \<open>
  C1. The claim is that both pipelines return frames of the original height and width,
  a 257 \<times> 255 frame coming back as 257 \<times> 255. The code does not do that:
  \<open>apply_video_compression\<close> reads \<open>h, w\<close> from the padded frames, so its crop keeps
  the padded size. With an encoder that loses nothing, v1 returns the 257 \<times> 255 frame
  as 258 \<times> 256 when frames are padded to multiples of 2 and as 260 \<times> 256 for multiples
  of 4, and v2 returns a 256 \<times> 255 frame as 256 \<times> 256.
\<close>

theorem apply_video_degradation_returns_padded_size:
  "apply_video_degradation (ext\<lparr>pad_multiple := 2, av_roundtrip := lossless_roundtrip\<rparr>) world
     [frame 257 255] (example_params_v1\<lparr>should_add_video_compression := True\<rparr>)
     = Inr ([frame 258 256], world)
   \<and> apply_video_degradation (ext\<lparr>pad_multiple := 4, av_roundtrip := lossless_roundtrip\<rparr>) world
     [frame 257 255] (example_params_v1\<lparr>should_add_video_compression := True\<rparr>)
     = Inr ([frame 260 256], world)
   \<and> apply_video_degradation_v2 (ext2\<lparr>pad_multiple := 2, av_roundtrip := lossless_roundtrip\<rparr>) g
     [frame 256 255] example_params_v2
     = Inr ([frame 256 256], g)
   \<and> shape_hw (frame 258 256) = (258, 256) \<and> shape_hw (frame 260 256) = (260, 256)
   \<and> shape_hw (frame 256 256) = (256, 256)"
  by (simp add: apply_video_degradation_def apply_video_degradation_v2_def
      apply_frame_degradation_no_flags example_params_v1_def example_params_v2_def
      apply_video_compression_lossless round_up_examples shape_hw_frame
      apply_frame_degradation_v2_def)

end
